theory Spec2Isabelle
  imports Main
begin

section \<open>The block lifecycle cache of components/chain\<close>

text \<open>
  \<^verbatim>\<open>components/chain/block.go\<close> wraps a VM block in a \<^verbatim>\<open>BlockWrapper\<close> whose
  Verify, VerifyWithContext, ShouldVerifyWithContext, Accept and Reject methods call the
  wrapped block and move the block's identifier between the caches of a shared
  \<^verbatim>\<open>State\<close>. The embedding passes the State explicitly: every method takes the
  State it points to and returns its Go result together with the State afterwards.
\<close>

subsection \<open>Identifiers, errors and call arguments\<close>

text \<open>
  A block identifier (\<^verbatim>\<open>ids.ID\<close>) is only ever compared and used as a key. A Go
  \<^verbatim>\<open>error\<close> is an \<open>error option\<close>, \<open>None\<close> being \<^verbatim>\<open>nil\<close>. The
  \<^verbatim>\<open>context.Context\<close> and \<^verbatim>\<open>*block.Context\<close> arguments are opaque tokens that the
  wrapper hands on to the wrapped block.
\<close>

type_synonym ID = nat

datatype error = Error string

type_synonym go_context = nat

type_synonym block_context = nat

subsection \<open>The wrapped block\<close>

text \<open>
  The wrapped \<^verbatim>\<open>block.Block\<close> is VM code behind an interface. What one of its methods
  returns may depend on the caches at the moment of the call, so each method is a function
  of the call's arguments and of a \<open>view\<close> of the shared State: which identifiers each
  cache holds and the identifier of the tip. The wrapped block reads the caches; it
  does not write them.
\<close>

record view =
  sees_unverified :: "ID \<Rightarrow> bool"
  sees_verified :: "ID \<Rightarrow> bool"
  sees_decided :: "ID \<Rightarrow> bool"
  sees_tip :: "ID option"

text \<open>
  The optional \<^verbatim>\<open>block.WithVerifyContext\<close> capability. Its probe returns the Go pair
  \<^verbatim>\<open>(bool, error)\<close>.
\<close>

record with_verify_context =
  Ctx_ShouldVerifyWithContext :: "go_context \<Rightarrow> view \<Rightarrow> bool \<times> error option"
  Ctx_VerifyWithContext :: "go_context \<Rightarrow> block_context \<Rightarrow> view \<Rightarrow> error option"

text \<open>
  \<open>Block_WithVerifyContext\<close> is the outcome of the type assertion
  \<^verbatim>\<open>bw.Block.(block.WithVerifyContext)\<close>: \<open>None\<close> when the block lacks the capability.
\<close>

record block =
  Block_ID :: ID
  Block_Verify :: "go_context \<Rightarrow> view \<Rightarrow> error option"
  Block_Accept :: "go_context \<Rightarrow> view \<Rightarrow> error option"
  Block_Reject :: "go_context \<Rightarrow> view \<Rightarrow> error option"
  Block_WithVerifyContext :: "with_verify_context option"

text \<open>
  \<^verbatim>\<open>type BlockWrapper struct { block.Block; state *State }\<close>. The \<^verbatim>\<open>state\<close> pointer
  is the State argument of every method below.
\<close>

record BlockWrapper =
  Block :: block

definition ID :: "BlockWrapper \<Rightarrow> ID" where
  "ID bw = Block_ID (Block bw)"

subsection \<open>The eviction cache\<close>

text \<open>
  Modelled from the spec: the cache type behind \<^verbatim>\<open>unverifiedBlocks\<close> and
  \<^verbatim>\<open>decidedBlocks\<close> is not among the sources. The spec describes a bounded key-value
  cache of fixed capacity with least-recently-used eviction: \<^verbatim>\<open>Get(id) -> (value, found)\<close>;
  \<^verbatim>\<open>Put(id, value)\<close> inserts or overwrites and may evict the least-recently-used other
  entry if capacity is exceeded; \<^verbatim>\<open>Evict(id)\<close> removes an entry unconditionally, a no-op
  if absent. The entries are kept most recently used first.
\<close>

record cache =
  capacity :: nat
  entries :: "(ID \<times> BlockWrapper) list"

definition without :: "ID \<Rightarrow> (ID \<times> BlockWrapper) list \<Rightarrow> (ID \<times> BlockWrapper) list" where
  "without k es = filter (\<lambda>e. fst e \<noteq> k) es"

text \<open>Modelled from the spec: \<^verbatim>\<open>Get\<close>, the lookup and the cache with the entry refreshed.\<close>

definition Get :: "cache \<Rightarrow> ID \<Rightarrow> BlockWrapper option \<times> cache" where
  "Get c k =
     (case map_of (entries c) k of
        None \<Rightarrow> (None, c)
      | Some v \<Rightarrow> (Some v, c\<lparr>entries := (k, v) # without k (entries c)\<rparr>))"

text \<open>Modelled from the spec: \<^verbatim>\<open>Put\<close>.\<close>

definition Put :: "cache \<Rightarrow> ID \<Rightarrow> BlockWrapper \<Rightarrow> cache" where
  "Put c k v =
     (let others = without k (entries c);
          kept = (if capacity c < Suc (length others) then butlast others else others)
      in c\<lparr>entries := (k, v) # kept\<rparr>)"

text \<open>Modelled from the spec: \<^verbatim>\<open>Evict\<close>.\<close>

definition Evict :: "cache \<Rightarrow> ID \<Rightarrow> cache" where
  "Evict c k = c\<lparr>entries := without k (entries c)\<rparr>"

definition found :: "cache \<Rightarrow> ID \<Rightarrow> bool" where
  "found c k = (fst (Get c k) \<noteq> None)"

subsection \<open>The shared State\<close>

text \<open>
  The fields of \<^verbatim>\<open>State\<close> that block.go uses: two eviction caches, the Go map
  \<^verbatim>\<open>verifiedBlocks\<close> and the pointer \<^verbatim>\<open>lastAcceptedBlock\<close> (\<open>None\<close> is \<^verbatim>\<open>nil\<close>).
\<close>

record State =
  unverifiedBlocks :: cache
  verifiedBlocks :: "ID \<rightharpoonup> BlockWrapper"
  decidedBlocks :: cache
  lastAcceptedBlock :: "BlockWrapper option"

definition observe :: "State \<Rightarrow> view" where
  "observe s =
     \<lparr>sees_unverified = found (unverifiedBlocks s),
      sees_verified = (\<lambda>i. verifiedBlocks s i \<noteq> None),
      sees_decided = found (decidedBlocks s),
      sees_tip = map_option ID (lastAcceptedBlock s)\<rparr>"

subsection \<open>The methods of BlockWrapper\<close>

definition Verify :: "BlockWrapper \<Rightarrow> go_context \<Rightarrow> State \<Rightarrow> error option \<times> State" where
  "Verify bw ctx s =
     (case Block_Verify (Block bw) ctx (observe s) of
        Some err \<Rightarrow> (Some err, s)
      | None \<Rightarrow>
          (let blkID = ID bw;
               s1 = s\<lparr>unverifiedBlocks := Evict (unverifiedBlocks s) blkID\<rparr>;
               s2 = s1\<lparr>verifiedBlocks := (verifiedBlocks s1)(blkID \<mapsto> bw)\<rparr>
           in (None, s2)))"

definition VerifyWithContext ::
  "BlockWrapper \<Rightarrow> go_context \<Rightarrow> block_context \<Rightarrow> State \<Rightarrow> error option \<times> State" where
  "VerifyWithContext bw ctx blockCtx s =
     (case Block_WithVerifyContext (Block bw) of
        Some withCtx \<Rightarrow>
          (case Ctx_ShouldVerifyWithContext withCtx ctx (observe s) of
             (shouldVerify, Some err) \<Rightarrow> (Some err, s)
           | (shouldVerify, None) \<Rightarrow>
               if shouldVerify
               then (Ctx_VerifyWithContext withCtx ctx blockCtx (observe s), s)
               else Verify bw ctx s)
      | None \<Rightarrow> Verify bw ctx s)"

definition ShouldVerifyWithContext ::
  "BlockWrapper \<Rightarrow> go_context \<Rightarrow> State \<Rightarrow> (bool \<times> error option) \<times> State" where
  "ShouldVerifyWithContext bw ctx s =
     (case Block_WithVerifyContext (Block bw) of
        None \<Rightarrow> ((False, None), s)
      | Some blkWithCtx \<Rightarrow> (Ctx_ShouldVerifyWithContext blkWithCtx ctx (observe s), s))"

definition Accept :: "BlockWrapper \<Rightarrow> go_context \<Rightarrow> State \<Rightarrow> error option \<times> State" where
  "Accept bw ctx s =
     (let blkID = ID bw;
          s1 = s\<lparr>verifiedBlocks := (verifiedBlocks s)(blkID := None)\<rparr>;
          s2 = s1\<lparr>decidedBlocks := Put (decidedBlocks s1) blkID bw\<rparr>;
          s3 = s2\<lparr>lastAcceptedBlock := Some bw\<rparr>
      in (Block_Accept (Block bw) ctx (observe s3), s3))"

definition Reject :: "BlockWrapper \<Rightarrow> go_context \<Rightarrow> State \<Rightarrow> error option \<times> State" where
  "Reject bw ctx s =
     (let blkID = ID bw;
          s1 = s\<lparr>verifiedBlocks := (verifiedBlocks s)(blkID := None)\<rparr>;
          s2 = s1\<lparr>decidedBlocks := Put (decidedBlocks s1) blkID bw\<rparr>
      in (Block_Reject (Block bw) ctx (observe s2), s2))"

subsection \<open>Sequences of calls on one State\<close>

text \<open>
  The consensus engine calls the methods one after another on wrappers that point to the
  same State. A call's Go result goes back to the engine; the State it leaves is the State
  the next call finds.
\<close>

datatype call =
  Verify_call BlockWrapper go_context
| VerifyWithContext_call BlockWrapper go_context block_context
| ShouldVerifyWithContext_call BlockWrapper go_context
| Accept_call BlockWrapper go_context
| Reject_call BlockWrapper go_context

fun step :: "State \<Rightarrow> call \<Rightarrow> State" where
  "step s (Verify_call bw ctx) = snd (Verify bw ctx s)"
| "step s (VerifyWithContext_call bw ctx blockCtx) = snd (VerifyWithContext bw ctx blockCtx s)"
| "step s (ShouldVerifyWithContext_call bw ctx) = snd (ShouldVerifyWithContext bw ctx s)"
| "step s (Accept_call bw ctx) = snd (Accept bw ctx s)"
| "step s (Reject_call bw ctx) = snd (Reject bw ctx s)"

fun exec :: "State \<Rightarrow> call list \<Rightarrow> State" where
  "exec s [] = s"
| "exec s (c # cs) = exec (step s c) cs"

text \<open>
  Invariant I1 at one identifier: of the three tests "is in unverifiedBlocks", "is in
  verifiedBlocks", "is in decidedBlocks", at most one holds.
\<close>

definition at_most_one_cache :: "State \<Rightarrow> ID \<Rightarrow> bool" where
  "at_most_one_cache s i =
     (length (filter (\<lambda>b. b)
        [found (unverifiedBlocks s) i, verifiedBlocks s i \<noteq> None, found (decidedBlocks s) i])
      \<le> 1)"

text \<open>
  The engine's discipline, read off the State at the moment of a call: verification is not
  asked for a block that sits in decidedBlocks, and a decision is not taken on a block that
  still sits in unverifiedBlocks.
\<close>

fun admissible :: "State \<Rightarrow> call \<Rightarrow> bool" where
  "admissible s (Verify_call bw ctx) = (\<not> found (decidedBlocks s) (ID bw))"
| "admissible s (VerifyWithContext_call bw ctx blockCtx) = (\<not> found (decidedBlocks s) (ID bw))"
| "admissible s (ShouldVerifyWithContext_call bw ctx) = True"
| "admissible s (Accept_call bw ctx) = (\<not> found (unverifiedBlocks s) (ID bw))"
| "admissible s (Reject_call bw ctx) = (\<not> found (unverifiedBlocks s) (ID bw))"

fun disciplined :: "State \<Rightarrow> call list \<Rightarrow> bool" where
  "disciplined s [] = True"
| "disciplined s (c # cs) = (admissible s c \<and> disciplined (step s c) cs)"

subsection \<open>Example blocks and States\<close>

text \<open>A block without the WithVerifyContext capability whose three methods succeed.\<close>

definition plain_block :: "ID \<Rightarrow> block" where
  "plain_block i =
     \<lparr>Block_ID = i,
      Block_Verify = (\<lambda>ctx v. None),
      Block_Accept = (\<lambda>ctx v. None),
      Block_Reject = (\<lambda>ctx v. None),
      Block_WithVerifyContext = None\<rparr>"

text \<open>A block without the capability whose three methods fail.\<close>

definition failing_block :: "ID \<Rightarrow> block" where
  "failing_block i =
     \<lparr>Block_ID = i,
      Block_Verify = (\<lambda>ctx v. Some (Error ''invalid block'')),
      Block_Accept = (\<lambda>ctx v. Some (Error ''commit failed'')),
      Block_Reject = (\<lambda>ctx v. Some (Error ''commit failed'')),
      Block_WithVerifyContext = None\<rparr>"

text \<open>
  A block with the capability: the probe answers \<^verbatim>\<open>(true, nil)\<close> and the context-aware
  verification succeeds.
\<close>

definition context_block :: "ID \<Rightarrow> block" where
  "context_block i =
     \<lparr>Block_ID = i,
      Block_Verify = (\<lambda>ctx v. None),
      Block_Accept = (\<lambda>ctx v. None),
      Block_Reject = (\<lambda>ctx v. None),
      Block_WithVerifyContext =
        Some \<lparr>Ctx_ShouldVerifyWithContext = (\<lambda>ctx v. (True, None)),
              Ctx_VerifyWithContext = (\<lambda>ctx blockCtx v. None)\<rparr>\<rparr>"

definition wrap :: "block \<Rightarrow> BlockWrapper" where
  "wrap b = \<lparr>Block = b\<rparr>"

text \<open>A State with nothing cached and no tip; both caches have room for two entries.\<close>

definition fresh_State :: State where
  "fresh_State =
     \<lparr>unverifiedBlocks = \<lparr>capacity = 2, entries = []\<rparr>,
      verifiedBlocks = Map.empty,
      decidedBlocks = \<lparr>capacity = 2, entries = []\<rparr>,
      lastAcceptedBlock = None\<rparr>"

text \<open>The State after a block was parsed and cached as unverified.\<close>

definition parsed_State :: "BlockWrapper \<Rightarrow> State" where
  "parsed_State bw =
     fresh_State\<lparr>unverifiedBlocks := Put (unverifiedBlocks fresh_State) (ID bw) bw\<rparr>"

section \<open>Properties\<close>

subsection \<open>The cache operations\<close>


lemma map_of_without: "map_of (without k es) j = (if j = k then None else map_of es j)"
  by (induction es) (auto simp: without_def)

lemma Get_lookup: "fst (Get c k) = map_of (entries c) k"
  by (simp add: Get_def split: option.split)

lemma Get_Evict: "fst (Get (Evict c k) j) = (if j = k then None else fst (Get c j))"
  by (simp add: Get_lookup Evict_def map_of_without)

lemma Get_Put_same: "fst (Get (Put c k v) k) = Some v"
  by (simp add: Get_lookup Put_def Let_def)

lemma map_of_butlast_Some: "map_of (butlast es) j = Some w \<Longrightarrow> map_of es j \<noteq> None"
  by (metis in_set_butlastD map_of_SomeD map_of_eq_None_iff image_eqI fst_conv)

lemma found_Put: "found (Put c k v) j \<Longrightarrow> j = k \<or> found c j"
  by (auto simp: found_def Get_lookup Put_def Let_def map_of_without dest: map_of_butlast_Some split: if_splits)

lemma found_Put_same: "found (Put c k v) k"
  by (simp add: found_def Get_Put_same)

lemma found_Evict: "found (Evict c k) j = (j \<noteq> k \<and> found c j)"
  by (simp add: found_def Get_Evict)

subsection \<open>What each method leaves behind\<close>

lemma Accept_State:
  "snd (Accept bw ctx s) =
     s\<lparr>verifiedBlocks := (verifiedBlocks s)(ID bw := None),
       decidedBlocks := Put (decidedBlocks s) (ID bw) bw,
       lastAcceptedBlock := Some bw\<rparr>"
  by (simp add: Accept_def Let_def)

lemma Reject_State:
  "snd (Reject bw ctx s) =
     s\<lparr>verifiedBlocks := (verifiedBlocks s)(ID bw := None),
       decidedBlocks := Put (decidedBlocks s) (ID bw) bw\<rparr>"
  by (simp add: Reject_def Let_def)

lemma Accept_result:
  "fst (Accept bw ctx s) = Block_Accept (Block bw) ctx (observe (snd (Accept bw ctx s)))"
  by (simp add: Accept_def Let_def)

lemma Reject_result:
  "fst (Reject bw ctx s) = Block_Reject (Block bw) ctx (observe (snd (Reject bw ctx s)))"
  by (simp add: Reject_def Let_def)

lemma Verify_State:
  "snd (Verify bw ctx s) =
     (if Block_Verify (Block bw) ctx (observe s) = None
      then s\<lparr>unverifiedBlocks := Evict (unverifiedBlocks s) (ID bw),
             verifiedBlocks := (verifiedBlocks s)(ID bw \<mapsto> bw)\<rparr>
      else s)"
  by (simp add: Verify_def Let_def split: option.split)

lemma VerifyWithContext_State:
  "snd (VerifyWithContext bw ctx blockCtx s) = s \<or>
   snd (VerifyWithContext bw ctx blockCtx s) = snd (Verify bw ctx s)"
  by (simp add: VerifyWithContext_def split: option.split prod.split)

lemma ShouldVerifyWithContext_State: "snd (ShouldVerifyWithContext bw ctx s) = s"
  by (simp add: ShouldVerifyWithContext_def split: option.split)

subsection \<open>The methods one by one\<close>

text \<open>
  Claim C3. When the wrapped block's Accept (or Reject) returns an error, the wrapper's
  Accept (or Reject) returns that error unchanged and nothing is rolled back: the
  identifier is absent from verifiedBlocks, decidedBlocks holds this handle under it, and
  for Accept the tip pointer is this handle.
\<close>

theorem Accept_Reject_error_without_rollback:
  "(Block_Accept (Block bw) ctx (observe (snd (Accept bw ctx s))) = Some err \<longrightarrow>
      fst (Accept bw ctx s) = Some err \<and>
      verifiedBlocks (snd (Accept bw ctx s)) (ID bw) = None \<and>
      fst (Get (decidedBlocks (snd (Accept bw ctx s))) (ID bw)) = Some bw \<and>
      lastAcceptedBlock (snd (Accept bw ctx s)) = Some bw) \<and>
   (Block_Reject (Block bw) ctx (observe (snd (Reject bw ctx s))) = Some err \<longrightarrow>
      fst (Reject bw ctx s) = Some err \<and>
      verifiedBlocks (snd (Reject bw ctx s)) (ID bw) = None \<and>
      fst (Get (decidedBlocks (snd (Reject bw ctx s))) (ID bw)) = Some bw)"
  by (simp add: Accept_result Reject_result Accept_State Reject_State Get_Put_same)

theorem Accept_Reject_error_without_rollback_witness:
  "Block_Accept (Block (wrap (failing_block 7))) 0
      (observe (snd (Accept (wrap (failing_block 7)) 0 fresh_State))) = Some (Error ''commit failed'') \<and>
   fst (Accept (wrap (failing_block 7)) 0 fresh_State) = Some (Error ''commit failed'') \<and>
   verifiedBlocks (snd (Accept (wrap (failing_block 7)) 0 fresh_State)) 7 = None \<and>
   fst (Get (decidedBlocks (snd (Accept (wrap (failing_block 7)) 0 fresh_State))) 7)
     = Some (wrap (failing_block 7)) \<and>
   lastAcceptedBlock (snd (Accept (wrap (failing_block 7)) 0 fresh_State))
     = Some (wrap (failing_block 7)) \<and>
   Block_Reject (Block (wrap (failing_block 7))) 0
      (observe (snd (Reject (wrap (failing_block 7)) 0 fresh_State))) = Some (Error ''commit failed'') \<and>
   fst (Reject (wrap (failing_block 7)) 0 fresh_State) = Some (Error ''commit failed'') \<and>
   verifiedBlocks (snd (Reject (wrap (failing_block 7)) 0 fresh_State)) 7 = None \<and>
   fst (Get (decidedBlocks (snd (Reject (wrap (failing_block 7)) 0 fresh_State))) 7)
     = Some (wrap (failing_block 7))"
proof -
  have a: "Block_Accept (Block (wrap (failing_block 7))) 0 v = Some (Error ''commit failed'')" for v
    by (simp add: wrap_def failing_block_def)
  have r: "Block_Reject (Block (wrap (failing_block 7))) 0 v = Some (Error ''commit failed'')" for v
    by (simp add: wrap_def failing_block_def)
  have i: "ID (wrap (failing_block 7)) = 7"
    by (simp add: ID_def wrap_def failing_block_def)
  show ?thesis
    using Accept_Reject_error_without_rollback
      [of "wrap (failing_block 7)" 0 fresh_State "Error ''commit failed''"] a r i
    by simp
qed

text \<open>
  Claim C4. Accept deletes the wrapper's identifier from verifiedBlocks, puts the handle
  into decidedBlocks, sets lastAcceptedBlock to the handle and only then calls the wrapped
  block's Accept, which therefore already sees the moves; afterwards verifiedBlocks does
  not contain the identifier, decidedBlocks contains it, and the identifier of
  lastAcceptedBlock equals it.
\<close>

theorem Accept_moves_then_delegates:
  "(let s' = s\<lparr>verifiedBlocks := (verifiedBlocks s)(ID bw := None),
               decidedBlocks := Put (decidedBlocks s) (ID bw) bw,
               lastAcceptedBlock := Some bw\<rparr>
    in Accept bw ctx s = (Block_Accept (Block bw) ctx (observe s'), s') \<and>
       verifiedBlocks s' (ID bw) = None \<and>
       fst (Get (decidedBlocks s') (ID bw)) = Some bw \<and>
       lastAcceptedBlock s' = Some bw \<and>
       map_option ID (lastAcceptedBlock s') = Some (ID bw) \<and>
       \<not> sees_verified (observe s') (ID bw) \<and>
       sees_decided (observe s') (ID bw) \<and>
       sees_tip (observe s') = Some (ID bw))"
  by (simp add: Let_def Accept_def Get_Put_same observe_def found_Put_same)

text \<open>
  Claim C5. When the wrapped block's Verify returns an error, the wrapper's Verify returns
  the same error and leaves unverifiedBlocks, verifiedBlocks, decidedBlocks and
  lastAcceptedBlock as they were.
\<close>

theorem Verify_error_changes_nothing:
  assumes "Block_Verify (Block bw) ctx (observe s) = Some err"
  shows "fst (Verify bw ctx s) = Some err \<and>
         unverifiedBlocks (snd (Verify bw ctx s)) = unverifiedBlocks s \<and>
         verifiedBlocks (snd (Verify bw ctx s)) = verifiedBlocks s \<and>
         decidedBlocks (snd (Verify bw ctx s)) = decidedBlocks s \<and>
         lastAcceptedBlock (snd (Verify bw ctx s)) = lastAcceptedBlock s \<and>
         snd (Verify bw ctx s) = s"
  using assms by (simp add: Verify_def)

theorem Verify_error_changes_nothing_witness:
  "Block_Verify (Block (wrap (failing_block 7))) 0 (observe (parsed_State (wrap (failing_block 7))))
     = Some (Error ''invalid block'') \<and>
   Verify (wrap (failing_block 7)) 0 (parsed_State (wrap (failing_block 7)))
     = (Some (Error ''invalid block''), parsed_State (wrap (failing_block 7)))"
proof -
  have h: "Block_Verify (Block (wrap (failing_block 7))) 0
             (observe (parsed_State (wrap (failing_block 7)))) = Some (Error ''invalid block'')"
    by (simp add: wrap_def failing_block_def)
  from Verify_error_changes_nothing [OF h] h show ?thesis
    by (simp add: prod_eq_iff)
qed

text \<open>
  Claim C6. When the wrapped block's Verify succeeds, the wrapper's Verify returns nil, the
  identifier is not found in unverifiedBlocks any more, and verifiedBlocks maps the
  identifier to this handle.
\<close>

theorem Verify_success_moves_to_verified:
  assumes "Block_Verify (Block bw) ctx (observe s) = None"
  shows "fst (Verify bw ctx s) = None \<and>
         fst (Get (unverifiedBlocks (snd (Verify bw ctx s))) (ID bw)) = None \<and>
         \<not> found (unverifiedBlocks (snd (Verify bw ctx s))) (ID bw) \<and>
         verifiedBlocks (snd (Verify bw ctx s)) (ID bw) = Some bw"
  using assms by (simp add: Verify_def Let_def Get_Evict found_Evict)

theorem Verify_success_moves_to_verified_witness:
  "Block_Verify (Block (wrap (plain_block 7))) 0 (observe (parsed_State (wrap (plain_block 7)))) = None \<and>
   found (unverifiedBlocks (parsed_State (wrap (plain_block 7)))) 7 \<and>
   fst (Verify (wrap (plain_block 7)) 0 (parsed_State (wrap (plain_block 7)))) = None \<and>
   \<not> found (unverifiedBlocks (snd (Verify (wrap (plain_block 7)) 0 (parsed_State (wrap (plain_block 7)))))) 7 \<and>
   verifiedBlocks (snd (Verify (wrap (plain_block 7)) 0 (parsed_State (wrap (plain_block 7))))) 7
     = Some (wrap (plain_block 7))"
proof -
  have h: "Block_Verify (Block (wrap (plain_block 7))) 0
             (observe (parsed_State (wrap (plain_block 7)))) = None"
    by (simp add: wrap_def plain_block_def)
  have i: "ID (wrap (plain_block 7)) = 7"
    by (simp add: ID_def wrap_def plain_block_def)
  have p: "found (unverifiedBlocks (parsed_State (wrap (plain_block 7)))) 7"
    using found_Put_same [of "unverifiedBlocks fresh_State" 7] by (simp add: parsed_State_def i)
  from Verify_success_moves_to_verified [OF h] h i p show ?thesis
    by simp
qed

text \<open>
  Claim C7. Reject deletes the identifier from verifiedBlocks and puts the handle into
  decidedBlocks exactly as Accept does, and leaves lastAcceptedBlock unchanged.
\<close>

theorem Reject_like_Accept_but_tip:
  "verifiedBlocks (snd (Reject bw ctx s)) = (verifiedBlocks s)(ID bw := None) \<and>
   decidedBlocks (snd (Reject bw ctx s)) = Put (decidedBlocks s) (ID bw) bw \<and>
   verifiedBlocks (snd (Reject bw ctx s)) = verifiedBlocks (snd (Accept bw ctx s)) \<and>
   decidedBlocks (snd (Reject bw ctx s)) = decidedBlocks (snd (Accept bw ctx s)) \<and>
   verifiedBlocks (snd (Reject bw ctx s)) (ID bw) = None \<and>
   fst (Get (decidedBlocks (snd (Reject bw ctx s))) (ID bw)) = Some bw \<and>
   lastAcceptedBlock (snd (Reject bw ctx s)) = lastAcceptedBlock s"
  by (simp add: Accept_State Reject_State Get_Put_same)

text \<open>
  Claim C9. For a wrapper whose block lacks the WithVerifyContext capability,
  ShouldVerifyWithContext returns \<^verbatim>\<open>(false, nil)\<close> and changes neither a cache nor
  the tip pointer.
\<close>

theorem ShouldVerifyWithContext_without_capability:
  assumes "Block_WithVerifyContext (Block bw) = None"
  shows "ShouldVerifyWithContext bw ctx s = ((False, None), s)"
  using assms by (simp add: ShouldVerifyWithContext_def)

theorem ShouldVerifyWithContext_without_capability_witness:
  "Block_WithVerifyContext (Block (wrap (plain_block 7))) = None \<and>
   ShouldVerifyWithContext (wrap (plain_block 7)) 0 fresh_State = ((False, None), fresh_State)"
proof -
  have h: "Block_WithVerifyContext (Block (wrap (plain_block 7))) = None"
    by (simp add: wrap_def plain_block_def)
  from ShouldVerifyWithContext_without_capability [OF h] h show ?thesis
    by simp
qed

text \<open>
  Claim C10. Accept and Reject never modify unverifiedBlocks; in particular an identifier
  that is in unverifiedBlocks when Accept or Reject is called is still there afterwards,
  while it is in decidedBlocks as well.
\<close>

theorem Accept_Reject_leave_unverifiedBlocks:
  "unverifiedBlocks (snd (Accept bw ctx s)) = unverifiedBlocks s \<and>
   unverifiedBlocks (snd (Reject bw ctx s)) = unverifiedBlocks s \<and>
   (found (unverifiedBlocks s) (ID bw) \<longrightarrow>
      found (unverifiedBlocks (snd (Accept bw ctx s))) (ID bw) \<and>
      found (decidedBlocks (snd (Accept bw ctx s))) (ID bw) \<and>
      found (unverifiedBlocks (snd (Reject bw ctx s))) (ID bw) \<and>
      found (decidedBlocks (snd (Reject bw ctx s))) (ID bw))"
  by (simp add: Accept_State Reject_State found_Put_same)

theorem Accept_Reject_leave_unverifiedBlocks_witness:
  "found (unverifiedBlocks (parsed_State (wrap (plain_block 7)))) 7 \<and>
   found (unverifiedBlocks (snd (Accept (wrap (plain_block 7)) 0 (parsed_State (wrap (plain_block 7)))))) 7 \<and>
   found (decidedBlocks (snd (Accept (wrap (plain_block 7)) 0 (parsed_State (wrap (plain_block 7)))))) 7 \<and>
   found (unverifiedBlocks (snd (Reject (wrap (plain_block 7)) 0 (parsed_State (wrap (plain_block 7)))))) 7 \<and>
   found (decidedBlocks (snd (Reject (wrap (plain_block 7)) 0 (parsed_State (wrap (plain_block 7)))))) 7"
proof -
  have i: "ID (wrap (plain_block 7)) = 7"
    by (simp add: ID_def wrap_def plain_block_def)
  have p: "found (unverifiedBlocks (parsed_State (wrap (plain_block 7)))) 7"
    using found_Put_same [of "unverifiedBlocks fresh_State" 7] by (simp add: parsed_State_def i)
  from Accept_Reject_leave_unverifiedBlocks
         [of "wrap (plain_block 7)" 0 "parsed_State (wrap (plain_block 7))"] i p
  show ?thesis by simp
qed

subsection \<open>One cache per identifier\<close>

lemma exec_snoc: "exec s (pre @ [c]) = step (exec s pre) c"
  by (induction pre arbitrary: s) simp_all

lemma at_most_one_cache_iff:
  "at_most_one_cache s i =
     (\<not> (found (unverifiedBlocks s) i \<and> verifiedBlocks s i \<noteq> None) \<and>
      \<not> (found (unverifiedBlocks s) i \<and> found (decidedBlocks s) i) \<and>
      \<not> (verifiedBlocks s i \<noteq> None \<and> found (decidedBlocks s) i))"
  by (auto simp: at_most_one_cache_def)

lemma Verify_keeps_one_cache:
  assumes inv: "\<forall>i. at_most_one_cache s i" and adm: "\<not> found (decidedBlocks s) (ID bw)"
  shows "at_most_one_cache (snd (Verify bw ctx s)) i"
  using inv [rule_format, of i] adm
  by (auto simp: Verify_State at_most_one_cache_iff found_Evict)

lemma Put_decided_keeps_one_cache:
  assumes inv: "\<forall>i. at_most_one_cache s i" and adm: "\<not> found (unverifiedBlocks s) (ID bw)"
    and t: "unverifiedBlocks t = unverifiedBlocks s"
           "verifiedBlocks t = (verifiedBlocks s)(ID bw := None)"
           "decidedBlocks t = Put (decidedBlocks s) (ID bw) bw"
  shows "at_most_one_cache t i"
  using inv [rule_format, of i] adm found_Put [of "decidedBlocks s" "ID bw" bw i]
  by (auto simp: at_most_one_cache_iff t)

lemma step_keeps_one_cache:
  assumes inv: "\<forall>i. at_most_one_cache s i" and adm: "admissible s c"
  shows "at_most_one_cache (step s c) i"
proof (cases c)
  case (Verify_call bw ctx)
  with inv adm show ?thesis by (simp add: Verify_keeps_one_cache)
next
  case (VerifyWithContext_call bw ctx blockCtx)
  with adm have d: "\<not> found (decidedBlocks s) (ID bw)" by simp
  from VerifyWithContext_State [of bw ctx blockCtx s] show ?thesis
  proof
    assume "snd (VerifyWithContext bw ctx blockCtx s) = s"
    with inv VerifyWithContext_call show ?thesis by simp
  next
    assume "snd (VerifyWithContext bw ctx blockCtx s) = snd (Verify bw ctx s)"
    with VerifyWithContext_call Verify_keeps_one_cache [OF inv d] show ?thesis by simp
  qed
next
  case (ShouldVerifyWithContext_call bw ctx)
  with inv show ?thesis by (simp add: ShouldVerifyWithContext_State)
next
  case (Accept_call bw ctx)
  with adm have u: "\<not> found (unverifiedBlocks s) (ID bw)" by simp
  have "at_most_one_cache (snd (Accept bw ctx s)) i"
    by (rule Put_decided_keeps_one_cache [OF inv u]) (simp_all add: Accept_State)
  with Accept_call show ?thesis by simp
next
  case (Reject_call bw ctx)
  with adm have u: "\<not> found (unverifiedBlocks s) (ID bw)" by simp
  have "at_most_one_cache (snd (Reject bw ctx s)) i"
    by (rule Put_decided_keeps_one_cache [OF inv u]) (simp_all add: Reject_State)
  with Reject_call show ?thesis by simp
qed

lemma exec_keeps_one_cache:
  "\<forall>i. at_most_one_cache s i \<Longrightarrow> disciplined s cs \<Longrightarrow> \<forall>i. at_most_one_cache (exec s cs) i"
proof (induction cs arbitrary: s)
  case Nil
  then show ?case by simp
next
  case (Cons c cs)
  from Cons.prems have "\<forall>i. at_most_one_cache (step s c) i"
    by (simp add: step_keeps_one_cache)
  moreover from Cons.prems have "disciplined (step s c) cs" by simp
  ultimately show ?case using Cons.IH by simp
qed

lemma disciplined_take: "disciplined s cs \<Longrightarrow> disciplined s (take n cs)"
proof (induction cs arbitrary: s n)
  case Nil
  then show ?case by simp
next
  case (Cons c cs)
  then show ?case by (cases n) simp_all
qed

text \<open>
  Claim C2, as amended. Start from a State in which every identifier is in at most one of
  unverifiedBlocks, verifiedBlocks and decidedBlocks, and let the calls keep the engine's
  discipline: no Verify (or VerifyWithContext) on a wrapper whose identifier is in
  decidedBlocks at that moment, no Accept or Reject on a wrapper whose identifier is in
  unverifiedBlocks at that moment. Then at every point of the sequence every identifier is
  in at most one of the three caches.
\<close>

theorem one_cache_under_discipline:
  assumes "\<forall>i. at_most_one_cache s i" and "disciplined s cs"
  shows "at_most_one_cache (exec s (take n cs)) i"
  using exec_keeps_one_cache [OF assms(1) disciplined_take [OF assms(2)]] by simp

lemma ID_wrap_plain: "ID (wrap (plain_block i)) = i"
  by (simp add: ID_def wrap_def plain_block_def)

lemma Verify_plain: "Block_Verify (Block (wrap (plain_block i))) ctx v = None"
  by (simp add: wrap_def plain_block_def)

lemma found_fresh: "\<not> found (unverifiedBlocks fresh_State) i" "\<not> found (decidedBlocks fresh_State) i"
  by (simp_all add: found_def Get_lookup fresh_State_def)

theorem one_cache_under_discipline_witness:
  "(\<forall>i. at_most_one_cache fresh_State i) \<and>
   disciplined fresh_State
     [Verify_call (wrap (plain_block 7)) 0, Accept_call (wrap (plain_block 7)) 0,
      Verify_call (wrap (plain_block 8)) 0, Reject_call (wrap (plain_block 8)) 0] \<and>
   at_most_one_cache
     (exec fresh_State (take 2
        [Verify_call (wrap (plain_block 7)) 0, Accept_call (wrap (plain_block 7)) 0,
         Verify_call (wrap (plain_block 8)) 0, Reject_call (wrap (plain_block 8)) 0])) 7"
proof -
  have a: "\<forall>i. at_most_one_cache fresh_State i"
    by (simp add: at_most_one_cache_iff found_fresh)
  have b: "disciplined fresh_State
     [Verify_call (wrap (plain_block 7)) 0, Accept_call (wrap (plain_block 7)) 0,
      Verify_call (wrap (plain_block 8)) 0, Reject_call (wrap (plain_block 8)) 0]"
    by (simp add: ID_wrap_plain Verify_State Verify_plain Accept_State found_def Get_lookup
        Evict_def Put_def Let_def without_def fresh_State_def)
  from one_cache_under_discipline [OF a b, of 2 7] a b show ?thesis by simp
qed

text \<open>
  Claim C2 as stated fails without the discipline. On a State with nothing cached, Accept
  followed by a successful Verify of the same block leaves its identifier in decidedBlocks
  and in verifiedBlocks. On a State that holds a block in unverifiedBlocks only, Accept
  leaves its identifier in unverifiedBlocks and in decidedBlocks.
\<close>

theorem one_cache_counterexample:
  "at_most_one_cache fresh_State 7 \<and>
   found (decidedBlocks (exec fresh_State
      [Accept_call (wrap (plain_block 7)) 0, Verify_call (wrap (plain_block 7)) 0])) 7 \<and>
   verifiedBlocks (exec fresh_State
      [Accept_call (wrap (plain_block 7)) 0, Verify_call (wrap (plain_block 7)) 0]) 7
     = Some (wrap (plain_block 7)) \<and>
   \<not> at_most_one_cache (exec fresh_State
      [Accept_call (wrap (plain_block 7)) 0, Verify_call (wrap (plain_block 7)) 0]) 7 \<and>
   at_most_one_cache (parsed_State (wrap (plain_block 7))) 7 \<and>
   found (unverifiedBlocks (exec (parsed_State (wrap (plain_block 7)))
      [Accept_call (wrap (plain_block 7)) 0])) 7 \<and>
   found (decidedBlocks (exec (parsed_State (wrap (plain_block 7)))
      [Accept_call (wrap (plain_block 7)) 0])) 7 \<and>
   \<not> at_most_one_cache (exec (parsed_State (wrap (plain_block 7)))
      [Accept_call (wrap (plain_block 7)) 0]) 7"
proof -
  have p: "found (unverifiedBlocks (parsed_State (wrap (plain_block 7)))) 7"
    using found_Put_same [of "unverifiedBlocks fresh_State" 7]
    by (simp add: parsed_State_def ID_wrap_plain)
  have q: "verifiedBlocks (parsed_State (wrap (plain_block 7))) 7 = None"
    "\<not> found (decidedBlocks (parsed_State (wrap (plain_block 7)))) 7"
    "verifiedBlocks fresh_State 7 = None"
    by (simp_all add: parsed_State_def found_fresh) (simp_all add: fresh_State_def)
  from p q show ?thesis
    by (simp add: at_most_one_cache_iff ID_wrap_plain Verify_State Verify_plain Accept_State
        found_Put_same found_fresh)
qed

subsection \<open>Who writes verifiedBlocks\<close>

lemma step_inserts_verified:
  assumes "verifiedBlocks (step t c) i = Some w" and "verifiedBlocks t i \<noteq> Some w"
  shows "\<exists>bw ctx. (c = Verify_call bw ctx \<or> (\<exists>blockCtx. c = VerifyWithContext_call bw ctx blockCtx)) \<and>
           Block_Verify (Block bw) ctx (observe t) = None \<and>
           step t c = snd (Verify bw ctx t) \<and> ID bw = i \<and> w = bw"
proof (cases c)
  case (Verify_call bw ctx)
  with assms show ?thesis by (auto simp: Verify_State split: if_splits)
next
  case (VerifyWithContext_call bw ctx blockCtx)
  from VerifyWithContext_State [of bw ctx blockCtx t] assms VerifyWithContext_call
  have e: "snd (VerifyWithContext bw ctx blockCtx t) = snd (Verify bw ctx t)" by auto
  with assms VerifyWithContext_call show ?thesis by (auto simp: Verify_State split: if_splits)
next
  case (ShouldVerifyWithContext_call bw ctx)
  with assms show ?thesis by (simp add: ShouldVerifyWithContext_State)
next
  case (Accept_call bw ctx)
  with assms show ?thesis by (simp add: Accept_State split: if_splits)
next
  case (Reject_call bw ctx)
  with assms show ?thesis by (simp add: Reject_State split: if_splits)
qed

text \<open>
  Claim C8. In every sequence of calls on one State, whenever a call leaves an identifier
  mapped to a handle in verifiedBlocks that was not mapped to it before, that call is the
  wrapper's Verify for this identifier and handle (directly, or as the fallback of
  VerifyWithContext), and the wrapped block's Verify has just returned nil. No other
  method inserts into verifiedBlocks.
\<close>

theorem verifiedBlocks_insert_only_by_Verify:
  assumes "verifiedBlocks (exec s (pre @ [c])) i = Some w"
      and "verifiedBlocks (exec s pre) i \<noteq> Some w"
  shows "\<exists>bw ctx. (c = Verify_call bw ctx \<or> (\<exists>blockCtx. c = VerifyWithContext_call bw ctx blockCtx)) \<and>
           Block_Verify (Block bw) ctx (observe (exec s pre)) = None \<and>
           exec s (pre @ [c]) = snd (Verify bw ctx (exec s pre)) \<and> ID bw = i \<and> w = bw"
  using assms step_inserts_verified [of "exec s pre" c i w] by (simp add: exec_snoc)

theorem verifiedBlocks_insert_only_by_Verify_witness:
  "verifiedBlocks (exec fresh_State
      ([Accept_call (wrap (plain_block 8)) 0] @ [Verify_call (wrap (plain_block 7)) 0])) 7
     = Some (wrap (plain_block 7)) \<and>
   verifiedBlocks (exec fresh_State [Accept_call (wrap (plain_block 8)) 0]) 7
     \<noteq> Some (wrap (plain_block 7)) \<and>
   (\<exists>bw ctx. (Verify_call (wrap (plain_block 7)) 0 = Verify_call bw ctx \<or>
              (\<exists>blockCtx. Verify_call (wrap (plain_block 7)) 0 = VerifyWithContext_call bw ctx blockCtx)) \<and>
      Block_Verify (Block bw) ctx (observe (exec fresh_State [Accept_call (wrap (plain_block 8)) 0])) = None \<and>
      exec fresh_State ([Accept_call (wrap (plain_block 8)) 0] @ [Verify_call (wrap (plain_block 7)) 0])
        = snd (Verify bw ctx (exec fresh_State [Accept_call (wrap (plain_block 8)) 0])) \<and>
      ID bw = 7 \<and> wrap (plain_block 7) = bw)"
proof -
  have a: "verifiedBlocks (exec fresh_State
      ([Accept_call (wrap (plain_block 8)) 0] @ [Verify_call (wrap (plain_block 7)) 0])) 7
     = Some (wrap (plain_block 7))"
    by (simp add: ID_wrap_plain Verify_State Verify_plain Accept_State)
  have b: "verifiedBlocks (exec fresh_State [Accept_call (wrap (plain_block 8)) 0]) 7
     \<noteq> Some (wrap (plain_block 7))"
    by (simp add: ID_wrap_plain Accept_State) (simp add: fresh_State_def)
  from verifiedBlocks_insert_only_by_Verify [OF a b] a b show ?thesis by blast
qed

subsection \<open>Context-aware verification\<close>

lemma ID_wrap_context: "ID (wrap (context_block i)) = i"
  by (simp add: ID_def wrap_def context_block_def)

text \<open>
  Claim C1 at a concrete input. The block has the WithVerifyContext capability, its probe
  answers \<^verbatim>\<open>(true, nil)\<close> and its context-aware verification succeeds; the State
  holds the block in unverifiedBlocks. VerifyWithContext returns nil and the State is
  untouched: the identifier is still in unverifiedBlocks and not in verifiedBlocks, where
  Verify on the same input evicts it from the one and stores the handle in the other.
\<close>

theorem VerifyWithContext_success_skips_caches:
  "VerifyWithContext (wrap (context_block 7)) 0 0 (parsed_State (wrap (context_block 7)))
     = (None, parsed_State (wrap (context_block 7))) \<and>
   found (unverifiedBlocks (parsed_State (wrap (context_block 7)))) 7 \<and>
   verifiedBlocks (parsed_State (wrap (context_block 7))) 7 = None \<and>
   verifiedBlocks (snd (Verify (wrap (context_block 7)) 0 (parsed_State (wrap (context_block 7))))) 7
     = Some (wrap (context_block 7)) \<and>
   \<not> found (unverifiedBlocks (snd (Verify (wrap (context_block 7)) 0 (parsed_State (wrap (context_block 7)))))) 7"
proof -
  have "VerifyWithContext (wrap (context_block 7)) 0 0 (parsed_State (wrap (context_block 7)))
     = (None, parsed_State (wrap (context_block 7)))"
    by (simp add: VerifyWithContext_def wrap_def context_block_def)
  moreover have "found (unverifiedBlocks (parsed_State (wrap (context_block 7)))) 7"
    using found_Put_same [of "unverifiedBlocks fresh_State" 7]
    by (simp add: parsed_State_def ID_wrap_context)
  moreover have "verifiedBlocks (parsed_State (wrap (context_block 7))) 7 = None"
    by (simp add: parsed_State_def fresh_State_def)
  moreover have "Block_Verify (Block (wrap (context_block 7))) 0 v = None" for v
    by (simp add: wrap_def context_block_def)
  ultimately show ?thesis
    by (simp add: Verify_State ID_wrap_context found_Evict)
qed

end
